theory Spec2Isabelle
  imports Main "HOL-Library.Word"
begin

section \<open>The Decaf parser (p2-parser.c): data model\<close>

text \<open>
  The parser of \<^verbatim>\<open>src/p2-parser/src/p2-parser.c\<close> reads a queue of tokens and
  builds a syntax tree. The token and tree types, the queue, the node constructors and the
  error routine are declared in headers that are not part of the source file; they are
  modelled here as the parser uses them.
\<close>

subsection \<open>Tokens and the token queue\<close>

datatype TokenType = ID | DECLIT | HEXLIT | STRLIT | KEY | SYM

record Token =
  type :: TokenType
  "text" :: string
  line :: int

text \<open>
  Modelled from the spec: the token queue (\<^verbatim>\<open>TokenQueue_is_empty\<close>,
  \<^verbatim>\<open>TokenQueue_peek\<close>, \<^verbatim>\<open>TokenQueue_remove\<close>) is declared in a header outside the
  source file. The spec describes it as an "ordered queue of Token" that supports "look at
  front without removing", "remove and return front" and "is empty", strictly first in,
  first out. A \<^verbatim>\<open>TokenQueue\<close> is therefore the list of the tokens still to be read,
  front first. \<^verbatim>\<open>TokenQueue_peek\<close> hands out a pointer to the front token; the parser
  tests that pointer against \<^verbatim>\<open>NULL\<close> in \<^verbatim>\<open>parse_program\<close>, so on an empty queue
  the pointer is null (\<open>None\<close>). \<open>mk_token\<close> builds a token from its three fields.
\<close>

type_synonym TokenQueue = "Token list"

definition mk_token :: "TokenType \<Rightarrow> string \<Rightarrow> int \<Rightarrow> Token" where
  "mk_token ty txt ln = \<lparr>type = ty, text = txt, line = ln\<rparr>"

definition TokenQueue_is_empty :: "TokenQueue \<Rightarrow> bool" where
  "TokenQueue_is_empty input = (input = [])"

definition TokenQueue_peek :: "TokenQueue \<Rightarrow> Token option" where
  "TokenQueue_peek input = (case input of [] \<Rightarrow> None | t # _ \<Rightarrow> Some t)"

definition TokenQueue_remove :: "TokenQueue \<Rightarrow> Token option \<times> TokenQueue" where
  "TokenQueue_remove input = (case input of [] \<Rightarrow> (None, []) | t # rest \<Rightarrow> (Some t, rest))"

text \<open>
  Modelled from the spec: \<^verbatim>\<open>token_str_eq\<close>, the text comparison of the token header, is
  not in the source file. The spec says the expected text must "match exactly".
\<close>

definition token_str_eq :: "string \<Rightarrow> string \<Rightarrow> bool" where
  "token_str_eq a b = (a = b)"

subsection \<open>Syntax tree\<close>

text \<open>The type \<^verbatim>\<open>INT\<close> is written \<open>INT_T\<close>: \<open>INT\<close> is taken by the notation of HOL.\<close>

datatype DecafType = INT_T | BOOL | VOID

datatype UnaryOpType = NOTOP

text \<open>
  The binary operator tags. \<^verbatim>\<open>op_type_helper\<close> names twelve of them; the thirteenth,
  the tag for "less than", is taken from the list of the spec
  (Or, And, Eq, NotEq, LessEq, GreaterEq, Less, Greater, Add, Sub, Mul, Div, Mod).
\<close>

datatype BinaryOpType =
  OROP | ANDOP | EQOP | NEQOP | LTOP | LEOP | GEOP | GTOP | ADDOP | SUBOP | MULOP | DIVOP | MODOP

datatype Parameter = Parameter string DecafType

text \<open>
  Modelled from the spec: the node constructors (\<^verbatim>\<open>ProgramNode_new\<close>,
  \<^verbatim>\<open>VarDeclNode_new\<close>, \<^verbatim>\<open>FuncDeclNode_new\<close>, \<^verbatim>\<open>BlockNode_new\<close>,
  \<^verbatim>\<open>AssignmentNode_new\<close>, \<^verbatim>\<open>ConditionalNode_new\<close>, \<^verbatim>\<open>BinaryOpNode_new\<close>,
  \<^verbatim>\<open>UnaryOpNode_new\<close>, \<^verbatim>\<open>LocationNode_new\<close>, \<^verbatim>\<open>LiteralNode_new_int\<close>,
  \<^verbatim>\<open>LiteralNode_new_bool\<close>, \<^verbatim>\<open>LiteralNode_new_string\<close>, \<^verbatim>\<open>BreakNode_new\<close>,
  \<^verbatim>\<open>ContinueNode_new\<close>, \<^verbatim>\<open>ReturnNode_new\<close>) are declared outside the source file.
  The spec says that they accept "already-validated field values" and "never fail". Each
  is a constructor of \<open>ASTNode\<close> that keeps the arguments of the call, in the order of
  the call.

  A node pointer that the parser may leave null is an \<open>option\<close>: the value of a
  \<^verbatim>\<open>return\<close>, the else-branch of a conditional, the index of a location, and the
  elements of a \<^verbatim>\<open>NodeList\<close> (the parser appends whatever pointer it holds).
  The last field of every node but the program is its source line. A C \<^verbatim>\<open>int\<close>
  literal value is a 32-bit word.
\<close>

datatype ASTNode =
    Program "ASTNode option list" "ASTNode option list"
  | VarDecl string DecafType bool int int
  | FuncDecl string DecafType "Parameter list" ASTNode int
  | Block "ASTNode option list" "ASTNode option list" int
  | Assignment ASTNode ASTNode int
  | Conditional ASTNode ASTNode "ASTNode option" int
  | BinaryOp BinaryOpType ASTNode ASTNode int
  | UnaryOp UnaryOpType ASTNode int
  | Location string "ASTNode option" int
  | LiteralInt "32 word" int
  | LiteralBool bool int
  | LiteralString string int
  | Break int
  | Continue int
  | Return "ASTNode option" int

text \<open>
  Modelled from the spec: \<^verbatim>\<open>NodeList_add\<close> and \<^verbatim>\<open>ParameterList_add_new\<close> are declared
  outside the source file. The spec describes the lists as an "insertion-ordered
  sequence": an element is added at the end.
\<close>

type_synonym NodeList = "ASTNode option list"

definition NodeList_add :: "NodeList \<Rightarrow> ASTNode option \<Rightarrow> NodeList" where
  "NodeList_add list item = list @ [item]"

definition ParameterList_add_new :: "Parameter list \<Rightarrow> string \<Rightarrow> DecafType \<Rightarrow> Parameter list" where
  "ParameterList_add_new pl name t = pl @ [Parameter name t]"

subsection \<open>Failures\<close>

text \<open>
  Modelled from the spec: \<^verbatim>\<open>Error_throw_printf\<close> is declared outside the source file.
  The spec says that a rule "raises a typed parse failure immediately" and that failures
  "propagate unchanged to the original caller": the call formats a message and abandons
  the parse; it does not return. Each format string of the source is one constructor of \<open>error\<close>, holding the
  arguments of the format:
  \<^item> \<open>UnexpectedEndOfInput e\<close>: "Unexpected end of input", alone (\<open>Nothing\<close>), or
    followed by "(expected '<text>')", "(expected type)" or "(expected identifier)";
  \<^item> \<open>UnexpectedToken expected found n\<close>: "Expected '<expected>' but found '<found>' on line <n>";
  \<^item> \<open>InvalidType found n\<close>: "Invalid type '<found>' on line <n>";
  \<^item> \<open>InvalidID found n\<close>: "Invalid ID '<found>' on line <n>";
  \<^item> \<open>InvalidReturn\<close>: "invalid return"; \<open>InvalidAssignment\<close>: "Invalid assignment";
    \<open>InvalidOperator\<close>: "Invalid operator".
\<close>

datatype expectation = Nothing | ExpectedText string | ExpectedType | ExpectedIdentifier

datatype error =
    UnexpectedEndOfInput expectation
  | UnexpectedToken string string int
  | InvalidType string int
  | InvalidID string int
  | InvalidReturn
  | InvalidAssignment
  | InvalidOperator

text \<open>
  Where the C program leaves defined behaviour, the model stops with the kind of the
  fault, so that nothing is proved about what a run does after it:
  \<^item> \<open>NullDeref\<close>: a field of the null pointer returned by \<^verbatim>\<open>TokenQueue_peek\<close> is read;
  \<^item> \<open>MissingReturn\<close>: a function with a result reaches its closing brace without a
    \<^verbatim>\<open>return\<close>, and its caller uses the result;
  \<^item> \<open>UseAfterFree\<close>: a token is read after \<^verbatim>\<open>Token_free\<close> released it (the spec:
    "the rule that matches it releases it");
  \<^item> \<open>OutOfBounds\<close>: a copy runs past the end of its buffer;
  \<^item> \<open>UninitialisedRead\<close>: a byte of a local buffer is read before it is written.
\<close>

datatype undefined_behaviour =
  NullDeref | MissingReturn | UseAfterFree | OutOfBounds | UninitialisedRead

datatype fault = Throw error | Undefined undefined_behaviour

text \<open>The kind of a result: which message, if any, was thrown.\<close>

fun is_UnexpectedToken :: "fault + 'a \<Rightarrow> bool" where
  "is_UnexpectedToken (Inl (Throw (UnexpectedToken expected found n))) = True"
| "is_UnexpectedToken _ = False"

fun is_UnexpectedEndOfInput :: "fault + 'a \<Rightarrow> bool" where
  "is_UnexpectedEndOfInput (Inl (Throw (UnexpectedEndOfInput e))) = True"
| "is_UnexpectedEndOfInput _ = False"

subsection \<open>The C library: \<^verbatim>\<open>atoi\<close> and \<^verbatim>\<open>strtol\<close>\<close>

text \<open>
  \<^verbatim>\<open>strtol(s, NULL, base)\<close> skips white space, reads an optional sign, for base 16 an
  optional \<^verbatim>\<open>0x\<close> that a hexadecimal digit follows, and then the longest run of
  digits of the base; the value is clamped to the range of \<^verbatim>\<open>long\<close> (64 bits).
  The parser stores the result in an \<^verbatim>\<open>int\<close>: the conversion keeps the low 32 bits.
  \<^verbatim>\<open>atoi(s)\<close> is \<^verbatim>\<open>(int) strtol(s, NULL, 10)\<close>, as the GNU C library defines it
  (the C standard leaves \<^verbatim>\<open>atoi\<close> of a value out of range undefined).
\<close>

definition isspace :: "char \<Rightarrow> bool" where
  "isspace c = (c \<in> set [CHR '' '', CHR 0x09, CHR 0x0A, CHR 0x0B, CHR 0x0C, CHR 0x0D])"

definition digit_value :: "char \<Rightarrow> nat option" where
  "digit_value c =
     (let n = (of_char c :: nat) in
      if 48 \<le> n \<and> n \<le> 57 then Some (n - 48)
      else if 97 \<le> n \<and> n \<le> 122 then Some (n - 87)
      else if 65 \<le> n \<and> n \<le> 90 then Some (n - 55)
      else None)"

fun strtol_digits :: "nat \<Rightarrow> int \<Rightarrow> string \<Rightarrow> int" where
  "strtol_digits base acc [] = acc"
| "strtol_digits base acc (c # cs) =
     (case digit_value c of
        None \<Rightarrow> acc
      | Some d \<Rightarrow> if d < base then strtol_digits base (acc * int base + int d) cs else acc)"

definition is_digit_of :: "nat \<Rightarrow> char \<Rightarrow> bool" where
  "is_digit_of base c = (case digit_value c of None \<Rightarrow> False | Some d \<Rightarrow> d < base)"

fun has_hex_prefix :: "string \<Rightarrow> bool" where
  "has_hex_prefix (z # x # d # _) =
     (z = CHR ''0'' \<and> (x = CHR ''x'' \<or> x = CHR ''X'') \<and> is_digit_of 16 d)"
| "has_hex_prefix _ = False"

definition LONG_MAX :: int where
  "LONG_MAX = 2 ^ 63 - 1"

definition LONG_MIN :: int where
  "LONG_MIN = - (2 ^ 63)"

definition strtol :: "string \<Rightarrow> nat \<Rightarrow> int" where
  "strtol nptr base =
     (let s1 = dropWhile isspace nptr;
          negative = (case s1 of [] \<Rightarrow> False | c # _ \<Rightarrow> c = CHR ''-'');
          s2 = (case s1 of [] \<Rightarrow> s1
                | c # r \<Rightarrow> if c = CHR ''-'' \<or> c = CHR ''+'' then r else s1);
          s3 = (if base = 16 \<and> has_hex_prefix s2 then drop 2 s2 else s2);
          v = strtol_digits base 0 s3
      in max LONG_MIN (min LONG_MAX (if negative then - v else v)))"

definition to_int :: "int \<Rightarrow> 32 word" where
  "to_int v = word_of_int v"

definition atoi :: "string \<Rightarrow> 32 word" where
  "atoi nptr = to_int (strtol nptr 10)"

section \<open>Helper functions of the parser\<close>

text \<open>
  A parsing function takes the queue and returns either a fault or its result together
  with the queue it leaves. A function that only looks at the queue returns no queue.
\<close>

definition get_next_token_line :: "TokenQueue \<Rightarrow> fault + int" where
  "get_next_token_line input =
     (if TokenQueue_is_empty input then Inl (Throw (UnexpectedEndOfInput Nothing))
      else case TokenQueue_peek input of
             None \<Rightarrow> Inl (Undefined NullDeref)
           | Some t \<Rightarrow> Inr (line t))"

text \<open>
  \<^verbatim>\<open>match_and_discard_next_token\<close> removes the front token first and then compares it.
  The line of its message is \<^verbatim>\<open>get_next_token_line(input)\<close>, evaluated on the queue
  after the removal; when that queue is empty, \<^verbatim>\<open>get_next_token_line\<close> throws its
  own message before the message of the mismatch is formatted.
\<close>

definition match_and_discard_next_token ::
    "TokenQueue \<Rightarrow> TokenType \<Rightarrow> string \<Rightarrow> fault + TokenQueue" where
  "match_and_discard_next_token input ty txt =
     (if TokenQueue_is_empty input then Inl (Throw (UnexpectedEndOfInput (ExpectedText txt)))
      else case TokenQueue_remove input of
             (None, _) \<Rightarrow> Inl (Undefined NullDeref)
           | (Some token, input') \<Rightarrow>
               if type token \<noteq> ty \<or> \<not> token_str_eq (text token) txt
               then (case get_next_token_line input' of
                       Inl e \<Rightarrow> Inl e
                     | Inr n \<Rightarrow> Inl (Throw (UnexpectedToken txt (text token) n)))
               else Inr input')"

definition discard_next_token :: "TokenQueue \<Rightarrow> fault + TokenQueue" where
  "discard_next_token input =
     (if TokenQueue_is_empty input then Inl (Throw (UnexpectedEndOfInput Nothing))
      else Inr (snd (TokenQueue_remove input)))"

definition check_next_token_type :: "TokenQueue \<Rightarrow> TokenType \<Rightarrow> bool" where
  "check_next_token_type input ty =
     (if TokenQueue_is_empty input then False
      else case TokenQueue_peek input of
             None \<Rightarrow> False
           | Some token \<Rightarrow> type token = ty)"

definition check_next_token :: "TokenQueue \<Rightarrow> TokenType \<Rightarrow> string \<Rightarrow> bool" where
  "check_next_token input ty txt =
     (if TokenQueue_is_empty input then False
      else case TokenQueue_peek input of
             None \<Rightarrow> False
           | Some token \<Rightarrow> type token = ty \<and> token_str_eq (text token) txt)"

definition parse_type :: "TokenQueue \<Rightarrow> fault + (DecafType \<times> TokenQueue)" where
  "parse_type input =
     (if TokenQueue_is_empty input then Inl (Throw (UnexpectedEndOfInput ExpectedType))
      else case TokenQueue_remove input of
             (None, _) \<Rightarrow> Inl (Undefined NullDeref)
           | (Some token, input') \<Rightarrow>
               if type token \<noteq> KEY
               then (case get_next_token_line input' of
                       Inl e \<Rightarrow> Inl e
                     | Inr n \<Rightarrow> Inl (Throw (InvalidType (text token) n)))
               else if token_str_eq ''int'' (text token) then Inr (INT_T, input')
               else if token_str_eq ''bool'' (text token) then Inr (BOOL, input')
               else if token_str_eq ''void'' (text token) then Inr (VOID, input')
               else (case get_next_token_line input' of
                       Inl e \<Rightarrow> Inl e
                     | Inr n \<Rightarrow> Inl (Throw (InvalidType (text token) n))))"

text \<open>
  Two constants of the headers are used by the source file and defined outside it:
  \<^verbatim>\<open>MAX_TOKEN_LEN\<close>, the size of the local text buffers, and \<^verbatim>\<open>MAX_ID_LEN\<close>, the
  size that \<^verbatim>\<open>parse_id\<close> passes to \<^verbatim>\<open>snprintf\<close>. They are parameters of the
  model, passed along with the queue.
\<close>

record limits =
  MAX_TOKEN_LEN :: nat
  MAX_ID_LEN :: nat

text \<open>
  \<^verbatim>\<open>snprintf(buffer, MAX_ID_LEN, "%s", token->text)\<close> stores at most
  \<^verbatim>\<open>MAX_ID_LEN - 1\<close> characters of the text.
\<close>

definition parse_id :: "limits \<Rightarrow> TokenQueue \<Rightarrow> fault + (string \<times> TokenQueue)" where
  "parse_id lim input =
     (if TokenQueue_is_empty input then Inl (Throw (UnexpectedEndOfInput ExpectedIdentifier))
      else case TokenQueue_remove input of
             (None, _) \<Rightarrow> Inl (Undefined NullDeref)
           | (Some token, input') \<Rightarrow>
               if type token \<noteq> ID
               then (case get_next_token_line input' of
                       Inl e \<Rightarrow> Inl e
                     | Inr n \<Rightarrow> Inl (Throw (InvalidID (text token) n)))
               else Inr (take (MAX_ID_LEN lim - 1) (text token), input'))"

section \<open>Node-level parsing functions\<close>

text \<open>
  \<^verbatim>\<open>strcmp(a, b)\<close> on two token texts is used only through its being zero or not:
  \<^verbatim>\<open>!strcmp(a, b)\<close> is \<open>a = b\<close>, and a \<^verbatim>\<open>bool\<close> made of \<^verbatim>\<open>strcmp(a, b)\<close> is
  \<open>a \<noteq> b\<close>.
\<close>

definition parse_vardecl :: "limits \<Rightarrow> TokenQueue \<Rightarrow> fault + (ASTNode \<times> TokenQueue)" where
  "parse_vardecl lim input =
     (case TokenQueue_peek input of
        None \<Rightarrow> Inl (Undefined NullDeref)
      | Some first \<Rightarrow>
          (case parse_type input of
             Inl e \<Rightarrow> Inl e
           | Inr (tokenType, input1) \<Rightarrow>
               (case parse_id lim input1 of
                  Inl e \<Rightarrow> Inl e
                | Inr (name, input2) \<Rightarrow>
                    (case match_and_discard_next_token input2 SYM '';'' of
                       Inl e \<Rightarrow> Inl e
                     | Inr input3 \<Rightarrow>
                         Inr (VarDecl name tokenType False 1 (line first), input3)))))"

text \<open>
  In the string case of \<^verbatim>\<open>breakout_helper\<close> the length \<^verbatim>\<open>strlen(strLit) - 2\<close> is a
  \<^verbatim>\<open>size_t\<close>: for a text shorter than two characters it wraps around, and
  \<^verbatim>\<open>strncpy\<close> then writes far past the block that \<^verbatim>\<open>malloc\<close> returned.
  Otherwise the copy holds the text without its first and last character.
\<close>

definition strip_quotes :: "string \<Rightarrow> fault + string" where
  "strip_quotes strLit =
     (if length strLit < 2 then Inl (Undefined OutOfBounds)
      else Inr (take (length strLit - 2) (drop 1 strLit)))"

text \<open>\<open>breakout_return\<close> is the branch of \<^verbatim>\<open>breakout_helper\<close> taken after the keyword
  \<^verbatim>\<open>return\<close> has been removed; \<open>ln\<close> is the line of that keyword.\<close>

definition breakout_return ::
    "limits \<Rightarrow> int \<Rightarrow> TokenQueue \<Rightarrow> fault + (ASTNode option \<times> TokenQueue)" where
  "breakout_return lim ln input =
     (if check_next_token_type input SYM then
        (case match_and_discard_next_token input SYM '';'' of
           Inl e \<Rightarrow> Inl e
         | Inr input1 \<Rightarrow> Inr (Some (Return None ln), input1))
      else if check_next_token_type input ID then
        (case parse_id lim input of
           Inl e \<Rightarrow> Inl e
         | Inr (name, input1) \<Rightarrow>
             (case match_and_discard_next_token input1 SYM '';'' of
                Inl e \<Rightarrow> Inl e
              | Inr input2 \<Rightarrow> Inr (Some (Return (Some (Location name None ln)) ln), input2)))
      else if check_next_token_type input DECLIT then
        (case TokenQueue_remove input of
           (None, _) \<Rightarrow> Inl (Undefined NullDeref)
         | (Some token, input1) \<Rightarrow>
             (case match_and_discard_next_token input1 SYM '';'' of
                Inl e \<Rightarrow> Inl e
              | Inr input2 \<Rightarrow>
                  Inr (Some (Return (Some (LiteralInt (atoi (text token)) ln)) ln), input2)))
      else if check_next_token_type input HEXLIT then
        (case TokenQueue_remove input of
           (None, _) \<Rightarrow> Inl (Undefined NullDeref)
         | (Some token, input1) \<Rightarrow>
             (case match_and_discard_next_token input1 SYM '';'' of
                Inl e \<Rightarrow> Inl e
              | Inr input2 \<Rightarrow>
                  Inr (Some (Return (Some (LiteralInt (to_int (strtol (text token) 16)) ln)) ln),
                       input2)))
      else if check_next_token_type input STRLIT then
        (case TokenQueue_remove input of
           (None, _) \<Rightarrow> Inl (Undefined NullDeref)
         | (Some token, input1) \<Rightarrow>
             (case strip_quotes (text token) of
                Inl e \<Rightarrow> Inl e
              | Inr parsed_str \<Rightarrow>
                  (case match_and_discard_next_token input1 SYM '';'' of
                     Inl e \<Rightarrow> Inl e
                   | Inr input2 \<Rightarrow>
                       Inr (Some (Return (Some (LiteralString parsed_str ln)) ln), input2))))
      else Inl (Throw InvalidReturn))"

text \<open>
  \<^verbatim>\<open>breakout_helper\<close> compares the text of the front token, whatever its type, with the
  three keywords. When none matches, it returns the null pointer.
\<close>

definition breakout_helper ::
    "limits \<Rightarrow> TokenQueue \<Rightarrow> fault + (ASTNode option \<times> TokenQueue)" where
  "breakout_helper lim input =
     (case TokenQueue_peek input of
        None \<Rightarrow> Inl (Undefined NullDeref)
      | Some keyword \<Rightarrow>
          if text keyword = ''continue'' then
            (case discard_next_token input of
               Inl e \<Rightarrow> Inl e
             | Inr input1 \<Rightarrow>
                 (case match_and_discard_next_token input1 SYM '';'' of
                    Inl e \<Rightarrow> Inl e
                  | Inr input2 \<Rightarrow> Inr (Some (Continue (line keyword)), input2)))
          else if text keyword = ''break'' then
            (case discard_next_token input of
               Inl e \<Rightarrow> Inl e
             | Inr input1 \<Rightarrow>
                 (case match_and_discard_next_token input1 SYM '';'' of
                    Inl e \<Rightarrow> Inl e
                  | Inr input2 \<Rightarrow> Inr (Some (Break (line keyword)), input2)))
          else if text keyword = ''return'' then
            (case discard_next_token input of
               Inl e \<Rightarrow> Inl e
             | Inr input1 \<Rightarrow> breakout_return lim (line keyword) input1)
          else Inr (None, input))"

text \<open>
  \<^verbatim>\<open>parse_assignment\<close> builds the value from the front token while it is still in the
  queue, and removes it afterwards. The text of a string literal is passed to
  \<^verbatim>\<open>LiteralNode_new_string\<close> as it stands in the token. \<open>assignment_value\<close> is the
  chain of tests on the front token that computes the local \<^verbatim>\<open>value\<close>.
\<close>

definition assignment_value :: "int \<Rightarrow> TokenQueue \<Rightarrow> fault + ASTNode" where
  "assignment_value ln input =
     (case TokenQueue_peek input of
        None \<Rightarrow> Inl (Throw InvalidAssignment)
      | Some token_value \<Rightarrow>
          if check_next_token_type input DECLIT then
            Inr (LiteralInt (atoi (text token_value)) ln)
          else if check_next_token_type input HEXLIT then
            Inr (LiteralInt (to_int (strtol (text token_value) 16)) ln)
          else if check_next_token_type input STRLIT then
            Inr (LiteralString (text token_value) ln)
          else if check_next_token input KEY ''true'' \<or> check_next_token input KEY ''false'' then
            Inr (LiteralBool (text token_value \<noteq> ''false'') ln)
          else if check_next_token_type input ID then
            Inr (Location (text token_value) None ln)
          else Inl (Throw InvalidAssignment))"

definition parse_assignment :: "limits \<Rightarrow> TokenQueue \<Rightarrow> fault + (ASTNode \<times> TokenQueue)" where
  "parse_assignment lim input =
     (case TokenQueue_peek input of
        None \<Rightarrow> Inl (Undefined NullDeref)
      | Some first \<Rightarrow>
          (case parse_id lim input of
             Inl e \<Rightarrow> Inl e
           | Inr (name, input1) \<Rightarrow>
               (case match_and_discard_next_token input1 SYM ''='' of
                  Inl e \<Rightarrow> Inl e
                | Inr input2 \<Rightarrow>
                    (case assignment_value (line first) input2 of
                       Inl e \<Rightarrow> Inl e
                     | Inr v \<Rightarrow>
                         (case discard_next_token input2 of
                            Inl e \<Rightarrow> Inl e
                          | Inr input3 \<Rightarrow>
                              (case match_and_discard_next_token input3 SYM '';'' of
                                 Inl e \<Rightarrow> Inl e
                               | Inr input4 \<Rightarrow>
                                   Inr (Assignment (Location name None (line first)) v (line first),
                                        input4)))))))"

text \<open>
  \<^verbatim>\<open>type_helper\<close> has four branches, each with a \<^verbatim>\<open>return\<close>, and no final
  \<^verbatim>\<open>else\<close>: for any other front token the function reaches its closing brace.
\<close>

definition type_helper :: "limits \<Rightarrow> TokenQueue \<Rightarrow> fault + (ASTNode \<times> TokenQueue)" where
  "type_helper lim input =
     (case TokenQueue_peek input of
        None \<Rightarrow> Inl (Undefined NullDeref)
      | Some peek \<Rightarrow>
          if type peek = ID then
            (case parse_id lim input of
               Inl e \<Rightarrow> Inl e
             | Inr (name, input1) \<Rightarrow> Inr (Location name None (line peek), input1))
          else if type peek = DECLIT then
            (case TokenQueue_remove input of
               (None, _) \<Rightarrow> Inl (Undefined NullDeref)
             | (Some token, input1) \<Rightarrow> Inr (LiteralInt (atoi (text token)) (line peek), input1))
          else if check_next_token_type input HEXLIT then
            (case TokenQueue_remove input of
               (None, _) \<Rightarrow> Inl (Undefined NullDeref)
             | (Some token, input1) \<Rightarrow>
                 Inr (LiteralInt (to_int (strtol (text token) 16)) (line peek), input1))
          else if check_next_token input KEY ''true'' \<or> check_next_token input KEY ''false'' then
            Inr (LiteralBool (text peek \<noteq> ''false'') (line peek), snd (TokenQueue_remove input))
          else Inl (Undefined MissingReturn))"

text \<open>
  \<^verbatim>\<open>op_type_helper\<close> copies the text of the front token into the local buffer
  \<^verbatim>\<open>value\<close> with \<^verbatim>\<open>strncpy(value, text, MAX_TOKEN_LEN - 1)\<close>: the first
  \<^verbatim>\<open>MAX_TOKEN_LEN - 1\<close> characters are written, and a terminating zero only when the
  text is shorter than that. The buffer is the pair of the characters written and whether
  the zero was written. Comparing an unterminated buffer with a literal reads an unwritten
  byte exactly when the characters written are an initial part of the literal.
  The function does not remove the token.
\<close>

definition strncpy :: "string \<Rightarrow> nat \<Rightarrow> string \<times> bool" where
  "strncpy src n = (take n src, length src < n)"

definition buffer_equals :: "string \<times> bool \<Rightarrow> string \<Rightarrow> fault + bool" where
  "buffer_equals buf lit =
     (case buf of (written, terminated) \<Rightarrow>
        if terminated then Inr (written = lit)
        else if take (length written) lit = written then Inl (Undefined UninitialisedRead)
        else Inr False)"

text \<open>The chain of tests of \<^verbatim>\<open>op_type_helper\<close>, in the order of the source.\<close>

definition operator_table :: "(string \<times> BinaryOpType) list" where
  "operator_table =
     [(''||'', OROP), (''&&'', ANDOP), (''=='', EQOP), (''!='', NEQOP), (''<'', LEOP),
      (''<='', LEOP), (''>='', GEOP), (''>'', GTOP), (''+'', ADDOP), (''-'', SUBOP),
      (''*'', MULOP), (''/'', DIVOP), (''%'', MODOP)]"

fun first_match :: "string \<times> bool \<Rightarrow> (string \<times> BinaryOpType) list \<Rightarrow> fault + BinaryOpType" where
  "first_match buf [] = Inl (Throw InvalidOperator)"
| "first_match buf ((lit, tag) # rest) =
     (case buffer_equals buf lit of
        Inl e \<Rightarrow> Inl e
      | Inr eq \<Rightarrow> if eq then Inr tag else first_match buf rest)"

definition op_type_helper :: "limits \<Rightarrow> TokenQueue \<Rightarrow> fault + BinaryOpType" where
  "op_type_helper lim input =
     (case TokenQueue_peek input of
        None \<Rightarrow> Inl (Undefined NullDeref)
      | Some token \<Rightarrow> first_match (strncpy (text token) (MAX_TOKEN_LEN lim - 1)) operator_table)"

text \<open>
  In the first branch of \<^verbatim>\<open>parse_expression\<close> the pointer \<^verbatim>\<open>peek\<close> is taken before
  \<^verbatim>\<open>parse_type\<close> removes and frees that token. When \<^verbatim>\<open>parse_type\<close> returns
  \<^verbatim>\<open>BOOL\<close> the text is read through \<^verbatim>\<open>peek\<close>, after the free; when it returns
  another type, no \<^verbatim>\<open>return\<close> is reached. In the last branch the operator token
  is still at the front of the queue when the right operand is read.
\<close>

definition parse_expression :: "limits \<Rightarrow> TokenQueue \<Rightarrow> fault + (ASTNode \<times> TokenQueue)" where
  "parse_expression lim input =
     (case TokenQueue_peek input of
        None \<Rightarrow> Inl (Undefined NullDeref)
      | Some first \<Rightarrow>
          if check_next_token input SYM ''!'' then
            (case parse_type (snd (TokenQueue_remove input)) of
               Inl e \<Rightarrow> Inl e
             | Inr (t, input2) \<Rightarrow>
                 if t = BOOL then Inl (Undefined UseAfterFree)
                 else Inl (Undefined MissingReturn))
          else if check_next_token input KEY ''true'' \<or> check_next_token input KEY ''false'' then
            (case TokenQueue_remove input of
               (None, _) \<Rightarrow> Inl (Undefined NullDeref)
             | (Some peek, input1) \<Rightarrow> Inr (LiteralBool (text peek \<noteq> ''false'') (line first), input1))
          else
            (case type_helper lim input of
               Inl e \<Rightarrow> Inl e
             | Inr (left, input1) \<Rightarrow>
                 (case op_type_helper lim input1 of
                    Inl e \<Rightarrow> Inl e
                  | Inr operator \<Rightarrow>
                      (case type_helper lim input1 of
                         Inl e \<Rightarrow> Inl e
                       | Inr (right, input2) \<Rightarrow>
                           Inr (BinaryOp operator left right (line first), input2)))))"

subsection \<open>What a successful call removes\<close>

lemma match_and_discard_next_token_Inr:
  "match_and_discard_next_token input ty txt = Inr input' \<Longrightarrow>
   \<exists>t. input = t # input' \<and> type t = ty \<and> text t = txt"
  by (cases input)
     (auto simp: match_and_discard_next_token_def TokenQueue_is_empty_def TokenQueue_remove_def
        token_str_eq_def split: if_splits sum.splits)

lemma parse_type_Inr:
  "parse_type input = Inr (t, input') \<Longrightarrow> \<exists>tok. input = tok # input' \<and> type tok = KEY"
  by (cases input)
     (auto simp: parse_type_def TokenQueue_is_empty_def TokenQueue_remove_def
        split: if_splits sum.splits)

lemma parse_id_Inr:
  "parse_id lim input = Inr (name, input') \<Longrightarrow> \<exists>tok. input = tok # input' \<and> type tok = ID"
  by (cases input)
     (auto simp: parse_id_def TokenQueue_is_empty_def TokenQueue_remove_def
        split: if_splits sum.splits)

lemma discard_next_token_Inr:
  "discard_next_token input = Inr input' \<Longrightarrow> \<exists>tok. input = tok # input'"
  by (cases input)
     (auto simp: discard_next_token_def TokenQueue_is_empty_def TokenQueue_remove_def
        split: if_splits)

lemma parse_vardecl_shorter:
  "parse_vardecl lim input = Inr (v, input') \<Longrightarrow> length input' < length input"
  unfolding parse_vardecl_def
  by (auto split: option.splits sum.splits prod.splits
      dest!: parse_type_Inr parse_id_Inr match_and_discard_next_token_Inr)

lemma parse_assignment_shorter:
  "parse_assignment lim input = Inr (v, input') \<Longrightarrow> length input' < length input"
  unfolding parse_assignment_def
  by (auto split: option.splits sum.splits prod.splits
      dest!: parse_id_Inr match_and_discard_next_token_Inr discard_next_token_Inr)

subsection \<open>Blocks, conditionals and functions\<close>

text \<open>
  The two loops of \<^verbatim>\<open>parse_block\<close>. Each reads \<^verbatim>\<open>next\<close>, the pointer to the front
  token, without testing it against null. The first loop looks at the text of the token
  only, the second at its type only.
\<close>

function parse_block_vars :: "limits \<Rightarrow> TokenQueue \<Rightarrow> NodeList \<Rightarrow> fault + (NodeList \<times> TokenQueue)" where
  "parse_block_vars lim input vars =
     (case TokenQueue_peek input of
        None \<Rightarrow> Inl (Undefined NullDeref)
      | Some next \<Rightarrow>
          if text next = ''int'' \<or> text next = ''bool'' then
            (case parse_vardecl lim input of
               Inl e \<Rightarrow> Inl e
             | Inr (vardecl, input') \<Rightarrow>
                 parse_block_vars lim input' (NodeList_add vars (Some vardecl)))
          else Inr (vars, input))"
  by pat_completeness auto
termination
  by (relation "measure (\<lambda>(lim, input, vars). length input)")
     (auto dest: parse_vardecl_shorter)

declare parse_block_vars.simps [simp del]

function parse_block_stmts :: "limits \<Rightarrow> TokenQueue \<Rightarrow> NodeList \<Rightarrow> fault + (NodeList \<times> TokenQueue)" where
  "parse_block_stmts lim input stmts =
     (case TokenQueue_peek input of
        None \<Rightarrow> Inl (Undefined NullDeref)
      | Some next \<Rightarrow>
          if type next = ID then
            (case parse_assignment lim input of
               Inl e \<Rightarrow> Inl e
             | Inr (assignment, input') \<Rightarrow>
                 parse_block_stmts lim input' (NodeList_add stmts (Some assignment)))
          else Inr (stmts, input))"
  by pat_completeness auto
termination
  by (relation "measure (\<lambda>(lim, input, stmts). length input)")
     (auto dest: parse_assignment_shorter)

declare parse_block_stmts.simps [simp del]

definition parse_block :: "limits \<Rightarrow> TokenQueue \<Rightarrow> fault + (ASTNode \<times> TokenQueue)" where
  "parse_block lim input =
     (case TokenQueue_peek input of
        None \<Rightarrow> Inl (Undefined NullDeref)
      | Some first \<Rightarrow>
          (case match_and_discard_next_token input SYM ''{'' of
             Inl e \<Rightarrow> Inl e
           | Inr input1 \<Rightarrow>
               (case parse_block_vars lim input1 [] of
                  Inl e \<Rightarrow> Inl e
                | Inr (vars, input2) \<Rightarrow>
                    (case parse_block_stmts lim input2 [] of
                       Inl e \<Rightarrow> Inl e
                     | Inr (stmts, input3) \<Rightarrow>
                         (case breakout_helper lim input3 of
                            Inl e \<Rightarrow> Inl e
                          | Inr (breakOut, input4) \<Rightarrow>
                              (case match_and_discard_next_token input4 SYM ''}'' of
                                 Inl e \<Rightarrow> Inl e
                               | Inr input5 \<Rightarrow>
                                   Inr (Block vars (NodeList_add stmts breakOut) (line first),
                                        input5)))))))"

text \<open>
  \<^verbatim>\<open>parse_conditional\<close> tests for the keyword \<^verbatim>\<open>else\<close> and, without removing it,
  calls \<^verbatim>\<open>parse_block\<close> on the same queue.
\<close>

definition parse_conditional :: "limits \<Rightarrow> TokenQueue \<Rightarrow> fault + (ASTNode \<times> TokenQueue)" where
  "parse_conditional lim input =
     (case TokenQueue_peek input of
        None \<Rightarrow> Inl (Undefined NullDeref)
      | Some first \<Rightarrow>
          (case match_and_discard_next_token input KEY ''if'' of
             Inl e \<Rightarrow> Inl e
           | Inr input1 \<Rightarrow>
               (case match_and_discard_next_token input1 SYM ''('' of
                  Inl e \<Rightarrow> Inl e
                | Inr input2 \<Rightarrow>
                    (case parse_expression lim input2 of
                       Inl e \<Rightarrow> Inl e
                     | Inr (expression, input3) \<Rightarrow>
                         (case match_and_discard_next_token input3 SYM '')'' of
                            Inl e \<Rightarrow> Inl e
                          | Inr input4 \<Rightarrow>
                              (case parse_block lim input4 of
                                 Inl e \<Rightarrow> Inl e
                               | Inr (block, input5) \<Rightarrow>
                                   if check_next_token input5 KEY ''else'' then
                                     (case parse_block lim input5 of
                                        Inl e \<Rightarrow> Inl e
                                      | Inr (else_block, input6) \<Rightarrow>
                                          Inr (Conditional expression block (Some else_block)
                                                 (line first), input6))
                                   else
                                     Inr (Conditional expression block None (line first),
                                          input5)))))))"

text \<open>
  The loop of \<^verbatim>\<open>param_helper\<close>: it leaves by its condition, or by the \<^verbatim>\<open>break\<close>
  when no comma follows a parameter.
\<close>

function param_loop ::
    "limits \<Rightarrow> TokenQueue \<Rightarrow> Parameter list \<Rightarrow> fault + (Parameter list \<times> TokenQueue)" where
  "param_loop lim input pl =
     (case TokenQueue_peek input of
        None \<Rightarrow> Inl (Undefined NullDeref)
      | Some peek \<Rightarrow>
          if text peek = ''int'' \<or> text peek = ''bool'' then
            (case parse_type input of
               Inl e \<Rightarrow> Inl e
             | Inr (t, input1) \<Rightarrow>
                 (case parse_id lim input1 of
                    Inl e \<Rightarrow> Inl e
                  | Inr (name, input2) \<Rightarrow>
                      if check_next_token input2 SYM '','' then
                        (case match_and_discard_next_token input2 SYM '','' of
                           Inl e \<Rightarrow> Inl e
                         | Inr input3 \<Rightarrow>
                             param_loop lim input3 (ParameterList_add_new pl name t))
                      else Inr (ParameterList_add_new pl name t, input2)))
          else Inr (pl, input))"
  by pat_completeness auto
termination
  by (relation "measure (\<lambda>(lim, input, pl). length input)")
     (auto dest!: parse_type_Inr parse_id_Inr match_and_discard_next_token_Inr)

declare param_loop.simps [simp del]

definition param_helper :: "limits \<Rightarrow> TokenQueue \<Rightarrow> fault + (Parameter list \<times> TokenQueue)" where
  "param_helper lim input = param_loop lim input []"

definition parse_function_decl :: "limits \<Rightarrow> TokenQueue \<Rightarrow> fault + (ASTNode \<times> TokenQueue)" where
  "parse_function_decl lim input =
     (case TokenQueue_peek input of
        None \<Rightarrow> Inl (Undefined NullDeref)
      | Some first \<Rightarrow>
          (case match_and_discard_next_token input KEY ''def'' of
             Inl e \<Rightarrow> Inl e
           | Inr input1 \<Rightarrow>
               (case parse_type input1 of
                  Inl e \<Rightarrow> Inl e
                | Inr (returnType, input2) \<Rightarrow>
                    (case parse_id lim input2 of
                       Inl e \<Rightarrow> Inl e
                     | Inr (name, input3) \<Rightarrow>
                         (case match_and_discard_next_token input3 SYM ''('' of
                            Inl e \<Rightarrow> Inl e
                          | Inr input4 \<Rightarrow>
                              (case param_helper lim input4 of
                                 Inl e \<Rightarrow> Inl e
                               | Inr (parameters, input5) \<Rightarrow>
                                   (case match_and_discard_next_token input5 SYM '')'' of
                                      Inl e \<Rightarrow> Inl e
                                    | Inr input6 \<Rightarrow>
                                        (case parse_block lim input6 of
                                           Inl e \<Rightarrow> Inl e
                                         | Inr (block, input7) \<Rightarrow>
                                             Inr (FuncDecl name returnType parameters block
                                                    (line first), input7)))))))))"

subsection \<open>A successful call never lengthens the queue\<close>

lemma parse_block_vars_length:
  "parse_block_vars lim input vars = Inr (vs, input') \<Longrightarrow> length input' \<le> length input"
proof (induction lim input vars rule: parse_block_vars.induct)
  case (1 lim input vars)
  show ?case
  proof (cases "TokenQueue_peek input")
    case None
    with "1.prems" show ?thesis by (simp add: parse_block_vars.simps[of lim input])
  next
    case (Some nxt)
    show ?thesis
    proof (cases "text nxt = ''int'' \<or> text nxt = ''bool''")
      case False
      with Some "1.prems" show ?thesis by (auto simp add: parse_block_vars.simps[of lim input])
    next
      case True
      with Some "1.prems" obtain vardecl input1 where
        pv: "parse_vardecl lim input = Inr (vardecl, input1)" and
        rec: "parse_block_vars lim input1 (NodeList_add vars (Some vardecl)) = Inr (vs, input')"
        by (auto simp add: parse_block_vars.simps[of lim input] split: sum.splits)
      from "1.IH"[OF Some True pv refl rec] parse_vardecl_shorter[OF pv]
      show ?thesis by simp
    qed
  qed
qed

lemma parse_block_stmts_length:
  "parse_block_stmts lim input stmts = Inr (ss, input') \<Longrightarrow> length input' \<le> length input"
proof (induction lim input stmts rule: parse_block_stmts.induct)
  case (1 lim input stmts)
  show ?case
  proof (cases "TokenQueue_peek input")
    case None
    with "1.prems" show ?thesis by (simp add: parse_block_stmts.simps[of lim input])
  next
    case (Some nxt)
    show ?thesis
    proof (cases "type nxt = ID")
      case False
      with Some "1.prems" show ?thesis by (auto simp add: parse_block_stmts.simps[of lim input])
    next
      case True
      with Some "1.prems" obtain a input1 where
        pa: "parse_assignment lim input = Inr (a, input1)" and
        rec: "parse_block_stmts lim input1 (NodeList_add stmts (Some a)) = Inr (ss, input')"
        by (auto simp add: parse_block_stmts.simps[of lim input] split: sum.splits)
      from "1.IH"[OF Some True pa refl rec] parse_assignment_shorter[OF pa]
      show ?thesis by simp
    qed
  qed
qed

lemma breakout_return_length:
  "breakout_return lim ln input = Inr (r, input') \<Longrightarrow> length input' \<le> length input"
  unfolding breakout_return_def
  by (cases input)
     (auto simp: TokenQueue_remove_def split: if_splits sum.splits prod.splits option.splits
      dest!: parse_id_Inr match_and_discard_next_token_Inr)

lemma breakout_helper_length:
  "breakout_helper lim input = Inr (r, input') \<Longrightarrow> length input' \<le> length input"
  unfolding breakout_helper_def
  by (auto split: if_splits sum.splits prod.splits option.splits
      dest!: discard_next_token_Inr match_and_discard_next_token_Inr breakout_return_length)

lemma parse_block_shorter:
  "parse_block lim input = Inr (b, input') \<Longrightarrow> length input' < length input"
  unfolding parse_block_def
  by (auto split: sum.splits prod.splits option.splits
      dest!: match_and_discard_next_token_Inr parse_block_vars_length parse_block_stmts_length
        breakout_helper_length)

lemma param_loop_length:
  "param_loop lim input pl = Inr (ps, input') \<Longrightarrow> length input' \<le> length input"
proof (induction lim input pl rule: param_loop.induct)
  case (1 lim input pl)
  show ?case
  proof (cases "TokenQueue_peek input")
    case None
    with "1.prems" show ?thesis by (simp add: param_loop.simps[of lim input])
  next
    case (Some peek)
    show ?thesis
    proof (cases "text peek = ''int'' \<or> text peek = ''bool''")
      case False
      with Some "1.prems" show ?thesis by (auto simp add: param_loop.simps[of lim input])
    next
      case True
      with Some "1.prems" obtain t input1 name input2 where
        pt: "parse_type input = Inr (t, input1)" and
        pi: "parse_id lim input1 = Inr (name, input2)"
        by (auto simp add: param_loop.simps[of lim input] split: sum.splits)
      from parse_type_Inr[OF pt] parse_id_Inr[OF pi]
      have len2: "length input2 \<le> length input" by auto
      show ?thesis
      proof (cases "check_next_token input2 SYM '',''")
        case False
        with Some True pt pi "1.prems" have "input' = input2"
          by (simp add: param_loop.simps[of lim input])
        with len2 show ?thesis by simp
      next
        case comma: True
        with Some True pt pi "1.prems" obtain input3 where
          md: "match_and_discard_next_token input2 SYM '','' = Inr input3" and
          rec: "param_loop lim input3 (ParameterList_add_new pl name t) = Inr (ps, input')"
          by (auto simp add: param_loop.simps[of lim input] split: sum.splits)
        from "1.IH"[OF Some True pt refl pi refl comma md rec]
          match_and_discard_next_token_Inr[OF md] len2
        show ?thesis by auto
      qed
    qed
  qed
qed

lemma param_helper_length:
  "param_helper lim input = Inr (ps, input') \<Longrightarrow> length input' \<le> length input"
  unfolding param_helper_def by (rule param_loop_length)

lemma parse_function_decl_shorter:
  "parse_function_decl lim input = Inr (f, input') \<Longrightarrow> length input' < length input"
  unfolding parse_function_decl_def
  by (auto split: option.splits sum.splits prod.splits
      dest!: match_and_discard_next_token_Inr parse_block_shorter parse_type_Inr parse_id_Inr
        param_helper_length)

subsection \<open>Programs\<close>

text \<open>
  The loop of \<^verbatim>\<open>parse_program\<close> runs while the queue is not empty; the test of
  \<^verbatim>\<open>next\<close> against \<^verbatim>\<open>NULL\<close> leaves the loop as well.
\<close>

function parse_program_loop ::
    "limits \<Rightarrow> TokenQueue \<Rightarrow> NodeList \<Rightarrow> NodeList \<Rightarrow> fault + (ASTNode \<times> TokenQueue)" where
  "parse_program_loop lim input vars funcs =
     (if \<not> TokenQueue_is_empty input then
        (case TokenQueue_peek input of
           None \<Rightarrow> Inr (Program vars funcs, input)
         | Some next \<Rightarrow>
             if check_next_token input KEY ''def'' then
               (case parse_function_decl lim input of
                  Inl e \<Rightarrow> Inl e
                | Inr (func_decl, input') \<Rightarrow>
                    parse_program_loop lim input' vars (NodeList_add funcs (Some func_decl)))
             else
               (case parse_vardecl lim input of
                  Inl e \<Rightarrow> Inl e
                | Inr (vardecl, input') \<Rightarrow>
                    parse_program_loop lim input' (NodeList_add vars (Some vardecl)) funcs))
      else Inr (Program vars funcs, input))"
  by pat_completeness auto
termination
  by (relation "measure (\<lambda>(lim, input, vars, funcs). length input)")
     (auto dest: parse_function_decl_shorter parse_vardecl_shorter)

declare parse_program_loop.simps [simp del]

definition parse_program :: "limits \<Rightarrow> TokenQueue \<Rightarrow> fault + (ASTNode \<times> TokenQueue)" where
  "parse_program lim input = parse_program_loop lim input [] []"

definition parse :: "limits \<Rightarrow> TokenQueue \<Rightarrow> fault + (ASTNode \<times> TokenQueue)" where
  "parse lim input = parse_program lim input"

section \<open>Properties\<close>

subsection \<open>Unfolding the model on a given queue\<close>

lemmas queue_defs =
  TokenQueue_is_empty_def TokenQueue_peek_def TokenQueue_remove_def token_str_eq_def
  mk_token_def

lemmas cursor_defs =
  get_next_token_line_def match_and_discard_next_token_def discard_next_token_def
  check_next_token_type_def check_next_token_def parse_type_def parse_id_def

lemmas libc_defs =
  atoi_def strtol_def isspace_def digit_value_def to_int_def LONG_MAX_def LONG_MIN_def
  is_digit_of_def

lemmas node_defs =
  parse_vardecl_def breakout_return_def breakout_helper_def strip_quotes_def
  assignment_value_def parse_assignment_def type_helper_def parse_expression_def
  parse_block_def parse_conditional_def param_helper_def parse_function_decl_def
  parse_program_def parse_def NodeList_add_def ParameterList_add_new_def

lemmas operator_defs =
  op_type_helper_def strncpy_def buffer_equals_def operator_table_def

lemmas loop_simps =
  parse_block_vars.simps parse_block_stmts.simps param_loop.simps parse_program_loop.simps

subsection \<open>Conditionals\<close>

text \<open>
  A block cannot start at a keyword: \<^verbatim>\<open>parse_block\<close> removes the front token and
  throws when it is not the symbol \<^verbatim>\<open>{\<close>. So the second call of \<^verbatim>\<open>parse_block\<close>
  in \<^verbatim>\<open>parse_conditional\<close>, made with \<^verbatim>\<open>else\<close> at the front, always fails, and a
  conditional that \<^verbatim>\<open>parse_conditional\<close> returns has no else-branch.
\<close>

lemma parse_block_after_keyword:
  "check_next_token input KEY txt \<Longrightarrow> \<exists>e. parse_block lim input = Inl e"
  by (cases input; cases "tl input")
     (auto simp add: queue_defs cursor_defs parse_block_def split: if_splits)

lemma parse_conditional_else_absent:
  "parse_conditional lim input = Inr (node, rest) \<Longrightarrow>
   \<exists>expression block ln. node = Conditional expression block None ln"
  unfolding parse_conditional_def
  using parse_block_after_keyword [of _ "''else''" lim]
  by (fastforce split: option.splits sum.splits prod.splits if_splits)

lemma parse_conditional_without_else:
  "parse_conditional lim
     [mk_token KEY ''if'' 1, mk_token SYM ''('' 1, mk_token KEY ''true'' 1, mk_token SYM '')'' 1,
      mk_token SYM ''{'' 1, mk_token KEY ''break'' 1, mk_token SYM '';'' 1, mk_token SYM ''}'' 1]
   = Inr (Conditional (LiteralBool True 1) (Block [] [Some (Break 1)] 1) None 1, [])"
  by (simp add: queue_defs cursor_defs node_defs loop_simps)

text \<open>
  C1. The claim: on a stream that starts with
  \<^verbatim>\<open>if ( expression ) block else block\<close>, \<^verbatim>\<open>parse_conditional\<close> succeeds, removes the
  whole construct and returns a conditional whose else-branch is the second block.
  The code does otherwise. On the tokens of
  \<^verbatim>\<open>if (true) { break; }\<close> (line 1) \<^verbatim>\<open>else { break; }\<close> (line 2) it throws
  "Expected '{' but found 'else' on line 2": the keyword \<^verbatim>\<open>else\<close> is tested with
  \<^verbatim>\<open>check_next_token\<close> and never removed, so the second \<^verbatim>\<open>parse_block\<close> meets it
  where it expects \<^verbatim>\<open>{\<close>. This holds for every value of the two size constants.
\<close>

theorem parse_conditional_else_fails:
  "parse_conditional lim
     [mk_token KEY ''if'' 1, mk_token SYM ''('' 1, mk_token KEY ''true'' 1, mk_token SYM '')'' 1,
      mk_token SYM ''{'' 1, mk_token KEY ''break'' 1, mk_token SYM '';'' 1, mk_token SYM ''}'' 1,
      mk_token KEY ''else'' 2,
      mk_token SYM ''{'' 2, mk_token KEY ''break'' 2, mk_token SYM '';'' 2, mk_token SYM ''}'' 2]
   = Inl (Throw (UnexpectedToken ''{'' ''else'' 2))"
  by (simp add: queue_defs cursor_defs node_defs loop_simps)

subsection \<open>Programs\<close>

text \<open>
  C2, as the claim states it, fails in its first half: on the empty stream \<^verbatim>\<open>parse\<close>
  does not fail with "Unexpected end of input"; the loop of \<^verbatim>\<open>parse_program\<close> is not
  entered and the program node with two empty lists is returned.
\<close>

theorem parse_empty_returns_program:
  "parse \<lparr>MAX_TOKEN_LEN = 256, MAX_ID_LEN = 256\<rparr> [] = Inr (Program [] [], [])"
  by (simp add: queue_defs node_defs loop_simps)

text \<open>
  C2, amended: on the empty stream \<^verbatim>\<open>parse\<close> succeeds with a program that holds no
  declaration and no function; on a stream of exactly one top-level variable declaration
  (a keyword \<^verbatim>\<open>int\<close>, \<^verbatim>\<open>bool\<close> or \<^verbatim>\<open>void\<close>, an identifier shorter than
  \<^verbatim>\<open>MAX_ID_LEN\<close>, the symbol \<^verbatim>\<open>;\<close>) it succeeds with a program that holds that
  declaration, with the line of the type keyword, and no function. In both cases the queue
  is left empty.
\<close>

theorem parse_empty_and_single_vardecl:
  assumes ty: "ty_text = ''int'' \<and> ty = INT_T \<or> ty_text = ''bool'' \<and> ty = BOOL \<or>
               ty_text = ''void'' \<and> ty = VOID"
    and len: "length name < MAX_ID_LEN lim"
  shows "parse lim [] = Inr (Program [] [], []) \<and>
         parse lim [mk_token KEY ty_text l1, mk_token ID name l2, mk_token SYM '';'' l3]
           = Inr (Program [Some (VarDecl name ty False 1 l1)] [], [])"
  using ty len by (auto simp add: queue_defs cursor_defs node_defs loop_simps)

theorem parse_empty_and_single_vardecl_witness:
  "parse \<lparr>MAX_TOKEN_LEN = 256, MAX_ID_LEN = 256\<rparr> [] = Inr (Program [] [], []) \<and>
   parse \<lparr>MAX_TOKEN_LEN = 256, MAX_ID_LEN = 256\<rparr>
     [mk_token KEY ''int'' 1, mk_token ID ''x'' 1, mk_token SYM '';'' 1]
   = Inr (Program [Some (VarDecl ''x'' INT_T False 1 1)] [], [])"
  using parse_empty_and_single_vardecl
    [of "''int''" INT_T "''x''" "\<lparr>MAX_TOKEN_LEN = 256, MAX_ID_LEN = 256\<rparr>" 1 1 1]
  by simp

subsection \<open>Blocks\<close>

text \<open>
  C3. The claim: the statement list of a block that \<^verbatim>\<open>parse_block\<close> returns ends with
  a break, continue or return node, never a null one, and \<^verbatim>\<open>parse_block\<close> fails when
  the tokens after the assignments are none of the three terminal statements.
  The code does otherwise. On the tokens of \<^verbatim>\<open>{ }\<close> \<^verbatim>\<open>breakout_helper\<close> finds none of
  its three keywords and returns the null pointer; \<^verbatim>\<open>parse_block\<close> appends it to the
  statement list, matches \<^verbatim>\<open>}\<close> and returns a block whose only statement is null.
\<close>

theorem parse_block_null_statement:
  "parse_block lim [mk_token SYM ''{'' 1, mk_token SYM ''}'' 1] = Inr (Block [] [None] 1, [])"
  by (simp add: queue_defs cursor_defs node_defs loop_simps)

subsection \<open>Assignments\<close>

text \<open>
  C4. The claim: the string literal on the right of an assignment is the text of the
  token without its first and last quote character.
  The code does otherwise. For every stream that starts with an identifier, \<^verbatim>\<open>=\<close>, a
  string literal token and \<^verbatim>\<open>;\<close>, \<^verbatim>\<open>parse_assignment\<close> succeeds, and the literal
  holds the text of the token unchanged, quotes included. (The return statement of
  \<^verbatim>\<open>breakout_helper\<close> does strip them.)
\<close>

theorem parse_assignment_string_unstripped:
  "parse_assignment lim
     (mk_token ID name l1 # mk_token SYM ''='' l2 # mk_token STRLIT s l3 #
      mk_token SYM '';'' l4 # rest)
   = Inr (Assignment (Location (take (MAX_ID_LEN lim - 1) name) None l1)
            (LiteralString s l1) l1, rest)"
  by (simp add: queue_defs cursor_defs node_defs)

text \<open>The sibling path, for comparison: a returned string literal loses its quotes.\<close>

lemma breakout_helper_string_stripped:
  "breakout_helper lim
     [mk_token KEY ''return'' 1, mk_token STRLIT [CHR 0x22, CHR ''h'', CHR ''i'', CHR 0x22] 1,
      mk_token SYM '';'' 1]
   = Inr (Some (Return (Some (LiteralString ''hi'' 1)) 1), [])"
  by (simp add: queue_defs cursor_defs node_defs)

lemma parse_assignment_hex:
  "parse_assignment lim
     [mk_token ID ''x'' 1, mk_token SYM ''='' 1, mk_token HEXLIT ''0x1F'' 1, mk_token SYM '';'' 1]
   = Inr (Assignment (Location (take (MAX_ID_LEN lim - 1) ''x'') None 1) (LiteralInt 31 1) 1, [])"
  by (simp add: queue_defs cursor_defs node_defs libc_defs)

subsection \<open>A declaration without its semicolon\<close>

text \<open>
  C5, as the claim states it, fails: on the tokens of \<^verbatim>\<open>int x\<close> the failure of
  \<^verbatim>\<open>parse\<close> is not "Expected ';' but found ..." with a line; it is the end-of-input
  failure.
\<close>

theorem parse_int_x_not_unexpected_token:
  "\<not> is_UnexpectedToken
       (parse \<lparr>MAX_TOKEN_LEN = 256, MAX_ID_LEN = 256\<rparr>
          [mk_token KEY ''int'' 1, mk_token ID ''x'' 1]) \<and>
   is_UnexpectedEndOfInput
       (parse \<lparr>MAX_TOKEN_LEN = 256, MAX_ID_LEN = 256\<rparr>
          [mk_token KEY ''int'' 1, mk_token ID ''x'' 1])"
  by (simp add: queue_defs cursor_defs node_defs loop_simps)

text \<open>
  C5, amended: on the tokens of \<^verbatim>\<open>int x\<close> (both on line 1) \<^verbatim>\<open>parse\<close> fails with
  "Unexpected end of input (expected ';')": the message names the expected text
  \<^verbatim>\<open>;\<close> and no line.
\<close>

theorem parse_int_x_end_of_input:
  "parse lim [mk_token KEY ''int'' 1, mk_token ID ''x'' 1]
   = Inl (Throw (UnexpectedEndOfInput (ExpectedText '';'')))"
  by (simp add: queue_defs cursor_defs node_defs loop_simps)

subsection \<open>The line of a mismatch\<close>

text \<open>
  C6. The claim: the line in "Expected ... but found ... on line n" is the line of the
  token that failed to match.
  The code does otherwise. The token is removed before the message is formatted, and the
  line is read from the new front of the queue: whenever
  \<^verbatim>\<open>match_and_discard_next_token\<close> throws that message, a token follows the one that
  failed to match, and the line of the message is the line of that following token.
\<close>

theorem match_and_discard_line_of_following:
  "match_and_discard_next_token (t # rest) ty txt = Inl (Throw (UnexpectedToken expected found n))
   \<Longrightarrow> rest \<noteq> [] \<and> n = line (hd rest)"
  by (cases rest)
     (auto simp add: queue_defs cursor_defs split: if_splits)

text \<open>
  With \<^verbatim>\<open>)\<close> on line 1 at the front, an identifier on line 2 behind it, and \<^verbatim>\<open>;\<close>
  expected, the message names line 2.
\<close>

theorem match_and_discard_line_of_following_witness:
  "match_and_discard_next_token [mk_token SYM '')'' 1, mk_token ID ''x'' 2] SYM '';''
     = Inl (Throw (UnexpectedToken '';'' '')'' 2)) \<and>
   line (hd [mk_token ID ''x'' 2]) = 2 \<and> line (mk_token SYM '')'' 1) = 1"
proof -
  have e: "match_and_discard_next_token [mk_token SYM '')'' 1, mk_token ID ''x'' 2] SYM '';''
     = Inl (Throw (UnexpectedToken '';'' '')'' 2))"
    by (simp add: queue_defs cursor_defs)
  from match_and_discard_line_of_following [OF e] e show ?thesis
    by (simp add: mk_token_def)
qed

subsection \<open>Operators\<close>

text \<open>
  C7. When \<^verbatim>\<open>MAX_TOKEN_LEN\<close> is at least 4 (so that the buffer holds every operator
  with its terminating zero), \<^verbatim>\<open>op_type_helper\<close> maps the text of the front token to
  its tag: \<^verbatim>\<open>||\<close> to Or, \<^verbatim>\<open>&&\<close> to And, \<^verbatim>\<open>==\<close> to Eq, \<^verbatim>\<open>!=\<close> to NotEq, both
  \<^verbatim>\<open><\<close> and \<^verbatim>\<open><=\<close> to LessEq, \<^verbatim>\<open>>=\<close> to GreaterEq, \<^verbatim>\<open>>\<close> to Greater, and
  \<^verbatim>\<open>+ - * / %\<close> to Add, Sub, Mul, Div, Mod; for every other text it throws
  "Invalid operator".
\<close>

theorem op_type_helper_table:
  assumes "3 < MAX_TOKEN_LEN lim"
  shows "op_type_helper lim (t # rest) =
     (if text t = ''||'' then Inr OROP
      else if text t = ''&&'' then Inr ANDOP
      else if text t = ''=='' then Inr EQOP
      else if text t = ''!='' then Inr NEQOP
      else if text t = ''<'' then Inr LEOP
      else if text t = ''<='' then Inr LEOP
      else if text t = ''>='' then Inr GEOP
      else if text t = ''>'' then Inr GTOP
      else if text t = ''+'' then Inr ADDOP
      else if text t = ''-'' then Inr SUBOP
      else if text t = ''*'' then Inr MULOP
      else if text t = ''/'' then Inr DIVOP
      else if text t = ''%'' then Inr MODOP
      else Inl (Throw InvalidOperator))"
proof (cases "length (text t) < MAX_TOKEN_LEN lim - 1")
  case True
  then show ?thesis
    by (simp add: op_type_helper_def TokenQueue_peek_def strncpy_def buffer_equals_def
        operator_table_def)
next
  case False
  with assms have long: "3 \<le> length (text t)" by simp
  from assms have n: "3 \<le> MAX_TOKEN_LEN lim - 1" by simp
  define w where "w = take (MAX_TOKEN_LEN lim - 1) (text t)"
  from long n have lw: "3 \<le> length w" by (simp add: w_def)
  have ne: "take (length w) lit \<noteq> w" if "length lit \<le> 2" for lit
  proof
    assume "take (length w) lit = w"
    then have "length (take (length w) lit) = length w" by simp
    with that lw show False by simp
  qed
  have miss: "buffer_equals (w, False) lit = Inr False" if "length lit \<le> 2" for lit
    using ne[OF that] by (simp add: buffer_equals_def)
  have fm: "first_match (w, False) operator_table = Inl (Throw InvalidOperator)"
    by (simp add: operator_table_def miss)
  have "text t \<noteq> lit" if "length lit \<le> 2" for lit
    using that long by auto
  then have texts: "text t \<noteq> ''||''" "text t \<noteq> ''&&''" "text t \<noteq> ''==''" "text t \<noteq> ''!=''"
    "text t \<noteq> ''<''" "text t \<noteq> ''<=''" "text t \<noteq> ''>=''" "text t \<noteq> ''>''" "text t \<noteq> ''+''"
    "text t \<noteq> ''-''" "text t \<noteq> ''*''" "text t \<noteq> ''/''" "text t \<noteq> ''%''"
    by simp_all
  from False have "strncpy (text t) (MAX_TOKEN_LEN lim - 1) = (w, False)"
    by (simp add: strncpy_def w_def)
  then show ?thesis
    using fm texts by (simp add: op_type_helper_def TokenQueue_peek_def)
qed

theorem op_type_helper_table_witness:
  "op_type_helper \<lparr>MAX_TOKEN_LEN = 256, MAX_ID_LEN = 256\<rparr> [mk_token SYM ''<'' 1] = Inr LEOP \<and>
   op_type_helper \<lparr>MAX_TOKEN_LEN = 256, MAX_ID_LEN = 256\<rparr> [mk_token SYM ''<='' 1] = Inr LEOP \<and>
   op_type_helper \<lparr>MAX_TOKEN_LEN = 256, MAX_ID_LEN = 256\<rparr> [mk_token SYM ''%'' 1] = Inr MODOP \<and>
   op_type_helper \<lparr>MAX_TOKEN_LEN = 256, MAX_ID_LEN = 256\<rparr> [mk_token SYM ''!'' 1]
     = Inl (Throw InvalidOperator)"
  using
    op_type_helper_table [of "\<lparr>MAX_TOKEN_LEN = 256, MAX_ID_LEN = 256\<rparr>" "mk_token SYM ''<'' 1" "[]"]
    op_type_helper_table [of "\<lparr>MAX_TOKEN_LEN = 256, MAX_ID_LEN = 256\<rparr>" "mk_token SYM ''<='' 1" "[]"]
    op_type_helper_table [of "\<lparr>MAX_TOKEN_LEN = 256, MAX_ID_LEN = 256\<rparr>" "mk_token SYM ''%'' 1" "[]"]
    op_type_helper_table [of "\<lparr>MAX_TOKEN_LEN = 256, MAX_ID_LEN = 256\<rparr>" "mk_token SYM ''!'' 1" "[]"]
  by (simp add: mk_token_def)

subsection \<open>Expressions\<close>

text \<open>
  C8. The claim: on \<^verbatim>\<open>!\<close> followed by the keyword \<^verbatim>\<open>true\<close> or \<^verbatim>\<open>false\<close>,
  \<^verbatim>\<open>parse_expression\<close> returns the negation of that boolean literal.
  The code does otherwise. The token after \<^verbatim>\<open>!\<close> is read by \<^verbatim>\<open>parse_type\<close>, which
  accepts \<^verbatim>\<open>int\<close>, \<^verbatim>\<open>bool\<close> and \<^verbatim>\<open>void\<close> only: on \<^verbatim>\<open>true\<close> and on
  \<^verbatim>\<open>false\<close> it throws "Invalid type", with the line of the token that follows, or
  "Unexpected end of input" when none follows.
\<close>

theorem parse_expression_not_boolean_fails:
  "b = ''true'' \<or> b = ''false'' \<Longrightarrow>
   parse_expression lim (mk_token SYM ''!'' l0 # mk_token KEY b l1 # rest)
   = Inl (Throw (case rest of [] \<Rightarrow> UnexpectedEndOfInput Nothing
                 | following # _ \<Rightarrow> InvalidType b (line following)))"
  by (cases rest) (auto simp add: queue_defs cursor_defs node_defs)

theorem parse_expression_not_boolean_fails_witness:
  "parse_expression \<lparr>MAX_TOKEN_LEN = 256, MAX_ID_LEN = 256\<rparr>
     [mk_token SYM ''!'' 1, mk_token KEY ''true'' 1, mk_token SYM '')'' 1]
   = Inl (Throw (InvalidType ''true'' 1))"
  using parse_expression_not_boolean_fails
    [of "''true''" "\<lparr>MAX_TOKEN_LEN = 256, MAX_ID_LEN = 256\<rparr>" 1 1 "[mk_token SYM '')'' 1]"]
  by (simp add: mk_token_def)

subsection \<open>A whole function\<close>

text \<open>
  C9. When \<^verbatim>\<open>MAX_ID_LEN\<close> is at least 2 (so that a name of one character is kept),
  \<^verbatim>\<open>parse\<close> succeeds on the tokens of
  \<^verbatim>\<open>def int f() { int x; x = 5; return x; }\<close>, all on line 1: the program holds no
  variable and one function \<open>f\<close>, whose block has exactly the declaration of \<open>x\<close> in its
  list of variables and exactly two statements, the assignment and then the return.
\<close>

theorem parse_function_with_block:
  "1 < MAX_ID_LEN lim \<Longrightarrow>
   parse lim
     [mk_token KEY ''def'' 1, mk_token KEY ''int'' 1, mk_token ID ''f'' 1, mk_token SYM ''('' 1,
      mk_token SYM '')'' 1, mk_token SYM ''{'' 1, mk_token KEY ''int'' 1, mk_token ID ''x'' 1,
      mk_token SYM '';'' 1, mk_token ID ''x'' 1, mk_token SYM ''='' 1, mk_token DECLIT ''5'' 1,
      mk_token SYM '';'' 1, mk_token KEY ''return'' 1, mk_token ID ''x'' 1, mk_token SYM '';'' 1,
      mk_token SYM ''}'' 1]
   = Inr (Program []
       [Some (FuncDecl ''f'' INT_T []
           (Block [Some (VarDecl ''x'' INT_T False 1 1)]
             [Some (Assignment (Location ''x'' None 1) (LiteralInt 5 1) 1),
              Some (Return (Some (Location ''x'' None 1)) 1)] 1) 1)], [])"
  by (simp add: queue_defs cursor_defs node_defs loop_simps libc_defs)

theorem parse_function_with_block_witness:
  "(1 :: nat) < MAX_ID_LEN \<lparr>MAX_TOKEN_LEN = 256, MAX_ID_LEN = 256\<rparr> \<and>
   parse \<lparr>MAX_TOKEN_LEN = 256, MAX_ID_LEN = 256\<rparr>
     [mk_token KEY ''def'' 1, mk_token KEY ''int'' 1, mk_token ID ''f'' 1, mk_token SYM ''('' 1,
      mk_token SYM '')'' 1, mk_token SYM ''{'' 1, mk_token KEY ''int'' 1, mk_token ID ''x'' 1,
      mk_token SYM '';'' 1, mk_token ID ''x'' 1, mk_token SYM ''='' 1, mk_token DECLIT ''5'' 1,
      mk_token SYM '';'' 1, mk_token KEY ''return'' 1, mk_token ID ''x'' 1, mk_token SYM '';'' 1,
      mk_token SYM ''}'' 1]
   = Inr (Program []
       [Some (FuncDecl ''f'' INT_T []
           (Block [Some (VarDecl ''x'' INT_T False 1 1)]
             [Some (Assignment (Location ''x'' None 1) (LiteralInt 5 1) 1),
              Some (Return (Some (Location ''x'' None 1)) 1)] 1) 1)], [])"
  using parse_function_with_block [of "\<lparr>MAX_TOKEN_LEN = 256, MAX_ID_LEN = 256\<rparr>"]
  by simp

subsection \<open>Operands\<close>

text \<open>
  C10. The claim: on a non-empty stream \<^verbatim>\<open>type_helper\<close> returns a node or throws; it
  never falls through.
  The code does otherwise. When the front token is not an identifier, a decimal literal, a
  hexadecimal literal or the keyword \<^verbatim>\<open>true\<close> or \<^verbatim>\<open>false\<close>, \<^verbatim>\<open>type_helper\<close> removes
  nothing, throws nothing and reaches its closing brace without a \<^verbatim>\<open>return\<close>.
\<close>

theorem type_helper_falls_through:
  "type t \<noteq> ID \<Longrightarrow> type t \<noteq> DECLIT \<Longrightarrow> type t \<noteq> HEXLIT \<Longrightarrow>
   \<not> (type t = KEY \<and> (text t = ''true'' \<or> text t = ''false'')) \<Longrightarrow>
   type_helper lim (t # rest) = Inl (Undefined MissingReturn)"
  by (auto simp add: queue_defs cursor_defs node_defs)

theorem type_helper_falls_through_witness:
  "type_helper \<lparr>MAX_TOKEN_LEN = 256, MAX_ID_LEN = 256\<rparr> [mk_token SYM ''+'' 1]
   = Inl (Undefined MissingReturn)"
  using type_helper_falls_through
    [of "mk_token SYM ''+'' 1" "\<lparr>MAX_TOKEN_LEN = 256, MAX_ID_LEN = 256\<rparr>" "[]"]
  by (simp add: mk_token_def)

text \<open>
  The fall-through is reached by every expression with an operator: \<^verbatim>\<open>op_type_helper\<close>
  leaves the operator in the queue, and the second call of \<^verbatim>\<open>type_helper\<close> finds it at
  the front.
\<close>

lemma parse_expression_binary_falls_through:
  "parse_expression \<lparr>MAX_TOKEN_LEN = 256, MAX_ID_LEN = 256\<rparr>
     [mk_token ID ''x'' 1, mk_token SYM ''<'' 1, mk_token ID ''y'' 1]
   = Inl (Undefined MissingReturn)"
  by (simp add: queue_defs cursor_defs node_defs operator_defs)

end
